theory Spec2Isabelle
  imports Complex_Main "HOL-Library.AList"
begin

section \<open>Python values, exceptions and dictionaries\<close>

text \<open>
  The pipeline passes its records around as Python dictionaries from field names to
  dynamically typed values: \<open>None\<close>, strings, ints, floats, Decimals and dates. A float or
  a Decimal is a finite value (an exact rational), one of the two infinities, or a quiet
  not-a-number; the two zeros of either type are one value, as they are under \<open>==\<close>. The
  arithmetic below rounds every result as the type does. A string is a list of
  characters with code points below 256.
\<close>

datatype number = Finite rat | PosInf | NegInf | NaN

record pydate =
  year :: int
  month :: int
  day :: int

datatype pyval =
    PNone
  | PStr string
  | PInt int
  | PFloat number
  | PDecimal number
  | PDate pydate

text \<open>The exceptions that occur; the last three are those of the \<open>decimal\<close> module.\<close>

datatype py_exc =
    ValueError
  | TypeError
  | KeyError
  | OverflowError
  | ZeroDivisionError
  | DecimalOverflow
  | DecimalInvalidOperation
  | DecimalDivisionByZero

type_synonym pydict = "(string \<times> pyval) list"

text \<open>Truth value of an object, as \<open>if value\<close> and \<open>not value\<close> test it: a number is false
  when it is zero (a not-a-number is true), a string when it is empty.\<close>

fun truthy :: "pyval \<Rightarrow> bool" where
  "truthy PNone = False"
| "truthy (PStr s) = (s \<noteq> [])"
| "truthy (PInt i) = (i \<noteq> 0)"
| "truthy (PFloat x) = (x \<noteq> Finite 0)"
| "truthy (PDecimal x) = (x \<noteq> Finite 0)"
| "truthy (PDate d) = True"

text \<open>\<open>key in d\<close>, \<open>d.get(key)\<close>, \<open>d.get(key, default)\<close> and \<open>d[key]\<close>.\<close>

definition has_key :: "pydict \<Rightarrow> string \<Rightarrow> bool" where
  "has_key d k = (map_of d k \<noteq> None)"

definition get :: "pydict \<Rightarrow> string \<Rightarrow> pyval" where
  "get d k = (case map_of d k of None \<Rightarrow> PNone | Some v \<Rightarrow> v)"


definition subscript :: "pydict \<Rightarrow> string \<Rightarrow> py_exc + pyval" where
  "subscript d k = (case map_of d k of None \<Rightarrow> Inl KeyError | Some v \<Rightarrow> Inr v)"

text \<open>Sequencing of steps that may raise: an exception of the first step ends the
  computation.\<close>

definition raising :: "py_exc + 'a \<Rightarrow> ('a \<Rightarrow> py_exc + 'b) \<Rightarrow> py_exc + 'b" where
  "raising m f = (case m of Inl e \<Rightarrow> Inl e | Inr x \<Rightarrow> f x)"

text \<open>A comprehension whose element expression may raise: the first exception wins.\<close>

fun collect :: "('a \<Rightarrow> py_exc + 'b) \<Rightarrow> 'a list \<Rightarrow> py_exc + 'b list" where
  "collect f [] = Inr []"
| "collect f (x # xs) =
     raising (f x) (\<lambda>y. raising (collect f xs) (\<lambda>ys. Inr (y # ys)))"

subsection \<open>Characters and strings\<close>

definition is_digit :: "char \<Rightarrow> bool" where
  "is_digit c = (48 \<le> (of_char c :: nat) \<and> (of_char c :: nat) \<le> 57)"

definition is_upper :: "char \<Rightarrow> bool" where
  "is_upper c = (65 \<le> (of_char c :: nat) \<and> (of_char c :: nat) \<le> 90)"

text \<open>Lower case of the letters A to Z, as the number parser folds case.\<close>

definition lower_char :: "char \<Rightarrow> char" where
  "lower_char c = (if is_upper c then char_of ((of_char c :: nat) + 32) else c)"



text \<open>Decimal numerals.\<close>

definition digit_val :: "char \<Rightarrow> int" where
  "digit_val c = of_char c - 48"

definition int_of_digits :: "string \<Rightarrow> int" where
  "int_of_digits s = foldl (\<lambda>a c. 10 * a + digit_val c) 0 s"

section \<open>Rounding: binary floats and Decimals\<close>

text \<open>The number of digits of a positive \<open>n\<close> in base \<open>b\<close>, a power of the base with an
  integer exponent, and the exponent \<open>e\<close> of a positive rational \<open>x\<close>:
  \<open>b ^ e \<le> x < b ^ (e + 1)\<close>.\<close>

function ndigits :: "int \<Rightarrow> int \<Rightarrow> nat" where
  "ndigits b n = (if n \<le> 0 \<or> b < 2 then 0 else Suc (ndigits b (n div b)))"
  by pat_completeness auto
termination
  by (relation "measure (\<lambda>(b, n). nat n)") (auto simp: int_div_less_self)

definition pow :: "int \<Rightarrow> int \<Rightarrow> rat" where
  "pow b k = (if k \<ge> 0 then of_int b ^ nat k else 1 / of_int b ^ nat (- k))"

definition floor_log :: "int \<Rightarrow> rat \<Rightarrow> int" where
  "floor_log b x =
     (if x \<ge> 1 then int (ndigits b \<lfloor>x\<rfloor>) - 1
      else - int (ndigits b (\<lceil>1 / x\<rceil> - 1)))"

text \<open>Rounding to the nearest integer, a tie to the even one.\<close>

definition round_half_even :: "rat \<Rightarrow> int" where
  "round_half_even x =
     (let f = \<lfloor>x\<rfloor>; d = x - of_int f
      in if d < 1 / 2 then f else if d > 1 / 2 then f + 1 else if even f then f else f + 1)"

text \<open>Rounding \<open>x\<close> to \<open>p\<close> significant digits in base \<open>b\<close>, on a grid that is never finer
  than \<open>b ^ qmin\<close> (the subnormal range).\<close>

definition round_to :: "int \<Rightarrow> int \<Rightarrow> int \<Rightarrow> rat \<Rightarrow> rat" where
  "round_to b p qmin x =
     (if x = 0 then 0
      else let q = pow b (max (floor_log b \<bar>x\<bar> - p + 1) qmin)
           in of_int (round_half_even (x / q)) * q)"

text \<open>The IEEE 754 double nearest to \<open>x\<close>: 53 bits, subnormals down to \<open>2 ^ -1074\<close>, and an
  infinity when the rounded value reaches \<open>2 ^ 1024\<close>.\<close>

definition round_double :: "rat \<Rightarrow> number" where
  "round_double x =
     (let y = round_to 2 53 (- 1074) x
      in if y \<noteq> 0 \<and> floor_log 2 \<bar>y\<bar> \<ge> 1024 then (if x > 0 then PosInf else NegInf)
         else Finite y)"

text \<open>The result of a Decimal operation in the default context: 28 digits, rounded half
  to even, the smallest exponent \<open>Etiny = -1000026\<close>, and the trapped \<open>Overflow\<close> signal
  when the rounded value reaches \<open>10 ^ 1000000\<close>.\<close>

definition round_decimal :: "rat \<Rightarrow> py_exc + number" where
  "round_decimal x =
     (let y = round_to 10 28 (- 1000026) x
      in if y \<noteq> 0 \<and> floor_log 10 \<bar>y\<bar> \<ge> 1000000 then Inl DecimalOverflow
         else Inr (Finite y))"

section \<open>Conversion to float: \<open>float(v)\<close>\<close>

text \<open>\<open>float(i)\<close> for an int: the nearest double, or \<open>OverflowError\<close>.\<close>

definition int_to_float :: "int \<Rightarrow> py_exc + number" where
  "int_to_float i =
     (case round_double (of_int i) of Finite y \<Rightarrow> Inr (Finite y) | _ \<Rightarrow> Inl OverflowError)"

text \<open>\<open>float(s)\<close> for a string. White space is stripped from both ends: the ASCII white
  space, and the two other white-space characters below 256, \<open>0x85\<close> and \<open>0xA0\<close> (the
  separators \<open>0x1C\<close> to \<open>0x1F\<close> are not stripped). An underscore may stand between two
  digits. What remains is an optional sign followed by \<open>inf\<close>, \<open>infinity\<close> or \<open>nan\<close> in any
  case, or by a decimal numeral: digits with an optional point, at least one digit, and
  an optional exponent. Anything else is a \<open>ValueError\<close>.\<close>

definition float_space :: "char \<Rightarrow> bool" where
  "float_space c = ((9 \<le> (of_char c :: nat) \<and> (of_char c :: nat) \<le> 13)
     \<or> (of_char c :: nat) = 32 \<or> (of_char c :: nat) = 133 \<or> (of_char c :: nat) = 160)"

definition float_strip :: "string \<Rightarrow> string" where
  "float_strip s = rev (dropWhile float_space (rev (dropWhile float_space s)))"

text \<open>Removing the underscores; \<open>prev\<close> is the character before.\<close>

fun drop_underscores :: "char \<Rightarrow> string \<Rightarrow> string option" where
  "drop_underscores prev [] = (if prev = CHR ''_'' then None else Some [])"
| "drop_underscores prev (c # cs) =
     (if c = CHR ''_'' then (if is_digit prev then drop_underscores c cs else None)
      else if prev = CHR ''_'' \<and> \<not> is_digit c then None
      else map_option ((#) c) (drop_underscores c cs))"

text \<open>The exponent part: nothing, or \<open>e\<close>, an optional sign and at least one digit.\<close>

definition exponent :: "string \<Rightarrow> int option" where
  "exponent s =
     (case s of
        [] \<Rightarrow> Some 0
      | c # r \<Rightarrow>
          if c = CHR ''e'' \<or> c = CHR ''E'' then
            (case r of
               [] \<Rightarrow> None
             | d # ds \<Rightarrow>
                 if d = CHR ''-'' \<and> ds \<noteq> [] \<and> list_all is_digit ds
                   then Some (- int_of_digits ds)
                 else if d = CHR ''+'' \<and> ds \<noteq> [] \<and> list_all is_digit ds
                   then Some (int_of_digits ds)
                 else if list_all is_digit (d # ds) then Some (int_of_digits (d # ds))
                 else None)
          else None)"

text \<open>An unsigned decimal numeral, as an exact rational.\<close>

definition decimal_numeral :: "string \<Rightarrow> rat option" where
  "decimal_numeral s =
     (let ip = takeWhile is_digit s;
          r = dropWhile is_digit s;
          fp = (case r of [] \<Rightarrow> []
                | c # t \<Rightarrow> if c = CHR ''.'' then takeWhile is_digit t else []);
          r' = (case r of [] \<Rightarrow> []
                | c # t \<Rightarrow> if c = CHR ''.'' then dropWhile is_digit t else r)
      in if ip = [] \<and> fp = [] then None
         else map_option
                (\<lambda>e. of_int (int_of_digits (ip @ fp)) * pow 10 (e - int (length fp)))
                (exponent r'))"

definition unsigned_float :: "string \<Rightarrow> number option" where
  "unsigned_float s =
     (if map lower_char s = ''inf'' \<or> map lower_char s = ''infinity'' then Some PosInf
      else if map lower_char s = ''nan'' then Some NaN
      else map_option round_double (decimal_numeral s))"

fun negate :: "number \<Rightarrow> number" where
  "negate (Finite x) = Finite (- x)"
| "negate PosInf = NegInf"
| "negate NegInf = PosInf"
| "negate NaN = NaN"

definition signed_float :: "string \<Rightarrow> number option" where
  "signed_float s =
     (case s of
        [] \<Rightarrow> None
      | c # cs \<Rightarrow>
          if c = CHR ''-'' then map_option negate (unsigned_float cs)
          else if c = CHR ''+'' then unsigned_float cs
          else unsigned_float (c # cs))"

definition float_of_string :: "string \<Rightarrow> py_exc + number" where
  "float_of_string s =
     (case drop_underscores (CHR 0x00) (float_strip s) of
        None \<Rightarrow> Inl ValueError
      | Some t \<Rightarrow> (case signed_float t of None \<Rightarrow> Inl ValueError | Some x \<Rightarrow> Inr x))"

text \<open>\<open>float(d)\<close> for a Decimal: the nearest double, an infinity beyond the range.\<close>

fun decimal_to_float :: "number \<Rightarrow> number" where
  "decimal_to_float (Finite x) = round_double x"
| "decimal_to_float x = x"

text \<open>\<open>float(v)\<close> on any value.\<close>

fun py_float :: "pyval \<Rightarrow> py_exc + number" where
  "py_float (PFloat x) = Inr x"
| "py_float (PInt i) = int_to_float i"
| "py_float (PDecimal x) = Inr (decimal_to_float x)"
| "py_float (PStr s) = float_of_string s"
| "py_float PNone = Inl TypeError"
| "py_float (PDate d) = Inl TypeError"

section \<open>Arithmetic: \<open>+\<close>, \<open>*\<close> and \<open>/\<close>\<close>

text \<open>The sign of a number that is not a not-a-number: \<open>-1\<close>, \<open>0\<close> or \<open>1\<close>.\<close>

fun sign :: "number \<Rightarrow> int" where
  "sign (Finite x) = (if x < 0 then - 1 else if x = 0 then 0 else 1)"
| "sign PosInf = 1"
| "sign NegInf = - 1"
| "sign NaN = 0"

definition infinity :: "int \<Rightarrow> number" where
  "infinity s = (if s < 0 then NegInf else PosInf)"

text \<open>Float operations: the exact result, rounded; the usual rules for infinities.\<close>

fun float_add :: "number \<Rightarrow> number \<Rightarrow> number" where
  "float_add (Finite a) (Finite b) = round_double (a + b)"
| "float_add NaN y = NaN"
| "float_add x NaN = NaN"
| "float_add PosInf NegInf = NaN"
| "float_add NegInf PosInf = NaN"
| "float_add (Finite a) y = y"
| "float_add x y = x"

fun float_mul :: "number \<Rightarrow> number \<Rightarrow> number" where
  "float_mul (Finite a) (Finite b) = round_double (a * b)"
| "float_mul NaN y = NaN"
| "float_mul x NaN = NaN"
| "float_mul x y = (if sign x * sign y = 0 then NaN else infinity (sign x * sign y))"

fun float_div :: "number \<Rightarrow> number \<Rightarrow> py_exc + number" where
  "float_div x (Finite b) =
     (if b = 0 then Inl ZeroDivisionError
      else case x of
             Finite a \<Rightarrow> Inr (round_double (a / b))
           | NaN \<Rightarrow> Inr NaN
           | _ \<Rightarrow> Inr (infinity (sign x * sign (Finite b))))"
| "float_div NaN y = Inr NaN"
| "float_div x NaN = Inr NaN"
| "float_div (Finite a) y = Inr (Finite 0)"
| "float_div x y = Inr NaN"

text \<open>\<open>a / b\<close> for two ints: the double nearest to the exact quotient.\<close>

definition int_truediv :: "int \<Rightarrow> int \<Rightarrow> py_exc + number" where
  "int_truediv a b =
     (if b = 0 then Inl ZeroDivisionError
      else case round_double (of_int a / of_int b) of
             Finite y \<Rightarrow> Inr (Finite y)
           | _ \<Rightarrow> Inl OverflowError)"

text \<open>Decimal addition and division. An infinity minus itself, and zero divided by
  zero, are invalid operations; both are trapped, as is a division of a non-zero finite
  number by zero.\<close>

fun decimal_add :: "number \<Rightarrow> number \<Rightarrow> py_exc + number" where
  "decimal_add (Finite a) (Finite b) = round_decimal (a + b)"
| "decimal_add NaN y = Inr NaN"
| "decimal_add x NaN = Inr NaN"
| "decimal_add PosInf NegInf = Inl DecimalInvalidOperation"
| "decimal_add NegInf PosInf = Inl DecimalInvalidOperation"
| "decimal_add (Finite a) y = Inr y"
| "decimal_add x y = Inr x"

fun decimal_div :: "number \<Rightarrow> number \<Rightarrow> py_exc + number" where
  "decimal_div NaN y = Inr NaN"
| "decimal_div x NaN = Inr NaN"
| "decimal_div (Finite a) (Finite b) =
     (if b = 0 then (if a = 0 then Inl DecimalInvalidOperation else Inl DecimalDivisionByZero)
      else round_decimal (a / b))"
| "decimal_div (Finite a) y = Inr (Finite 0)"
| "decimal_div x (Finite b) = Inr (infinity (sign x * (if b < 0 then - 1 else 1)))"
| "decimal_div x y = Inl DecimalInvalidOperation"

text \<open>\<open>a + b\<close> on values: ints add exactly; an int next to a float is converted to a
  float first, next to a Decimal it is taken exactly; a float and a Decimal do not mix.
  Strings are concatenated. Nothing else can be added.\<close>

fun py_add :: "pyval \<Rightarrow> pyval \<Rightarrow> py_exc + pyval" where
  "py_add (PInt a) (PInt b) = Inr (PInt (a + b))"
| "py_add (PInt a) (PFloat y) = raising (int_to_float a) (\<lambda>x. Inr (PFloat (float_add x y)))"
| "py_add (PFloat x) (PInt b) = raising (int_to_float b) (\<lambda>y. Inr (PFloat (float_add x y)))"
| "py_add (PFloat x) (PFloat y) = Inr (PFloat (float_add x y))"
| "py_add (PInt a) (PDecimal y) =
     raising (decimal_add (Finite (of_int a)) y) (\<lambda>z. Inr (PDecimal z))"
| "py_add (PDecimal x) (PInt b) =
     raising (decimal_add x (Finite (of_int b))) (\<lambda>z. Inr (PDecimal z))"
| "py_add (PDecimal x) (PDecimal y) = raising (decimal_add x y) (\<lambda>z. Inr (PDecimal z))"
| "py_add (PStr s) (PStr t) = Inr (PStr (s @ t))"
| "py_add a b = Inl TypeError"

text \<open>\<open>sum(values)\<close>: the values are added from left to right, starting from the int 0.\<close>

fun py_sum_from :: "pyval \<Rightarrow> pyval list \<Rightarrow> py_exc + pyval" where
  "py_sum_from acc [] = Inr acc"
| "py_sum_from acc (v # vs) = raising (py_add acc v) (\<lambda>acc'. py_sum_from acc' vs)"

definition py_sum :: "pyval list \<Rightarrow> py_exc + pyval" where
  "py_sum vs = py_sum_from (PInt 0) vs"

text \<open>\<open>total / n\<close> for the length \<open>n\<close> of a list.\<close>

fun py_div_len :: "pyval \<Rightarrow> nat \<Rightarrow> py_exc + pyval" where
  "py_div_len (PInt a) n = raising (int_truediv a (int n)) (\<lambda>z. Inr (PFloat z))"
| "py_div_len (PFloat x) n =
     raising (int_to_float (int n)) (\<lambda>y. raising (float_div x y) (\<lambda>z. Inr (PFloat z)))"
| "py_div_len (PDecimal x) n =
     raising (decimal_div x (Finite (of_nat n))) (\<lambda>z. Inr (PDecimal z))"
| "py_div_len v n = Inl TypeError"

section \<open>Summary statistics (\<open>FinancialDataExtractor.extract_summary_statistics\<close>)\<close>

text \<open>The two list comprehensions \<open>rent_amounts\<close> and \<open>areas\<close>.\<close>

definition rent_amounts :: "pydict list \<Rightarrow> py_exc + pyval list" where
  "rent_amounts data =
     collect (\<lambda>record. raising (subscript record ''rent_amount'')
                (\<lambda>v. raising (py_float v) (\<lambda>x. Inr (PFloat x))))
       (filter (\<lambda>record. truthy (get record ''rent_amount'')) data)"

definition areas :: "pydict list \<Rightarrow> py_exc + pyval list" where
  "areas data =
     collect (\<lambda>record. subscript record ''area_sqft'')
       (filter (\<lambda>record. truthy (get record ''area_sqft'')) data)"

text \<open>\<open>occupied_units / total_units * 100\<close>: a true division of two ints, and the
  product of the float with the int 100.\<close>

definition occupancy_rate :: "nat \<Rightarrow> nat \<Rightarrow> py_exc + pyval" where
  "occupancy_rate occupied_units total_units =
     raising (int_truediv (int occupied_units) (int total_units)) (\<lambda>ratio.
     raising (int_to_float 100) (\<lambda>hundred. Inr (PFloat (float_mul ratio hundred))))"

text \<open>\<open>sum(values) if values else 0\<close> and \<open>sum(values) / len(values) if values else 0\<close>.\<close>

definition sum_or_zero :: "pyval list \<Rightarrow> py_exc + pyval" where
  "sum_or_zero vs = (if vs \<noteq> [] then py_sum vs else Inr (PInt 0))"

definition mean_or_zero :: "pyval list \<Rightarrow> py_exc + pyval" where
  "mean_or_zero vs =
     (if vs \<noteq> [] then raising (py_sum vs) (\<lambda>t. py_div_len t (length vs)) else Inr (PInt 0))"

text \<open>The dictionary literal \<open>summary\<close>, its entries evaluated in order.\<close>

definition summary :: "nat \<Rightarrow> nat \<Rightarrow> int \<Rightarrow> pyval list \<Rightarrow> pyval list \<Rightarrow> py_exc + pydict" where
  "summary total_units occupied_units vacant_units rents ars =
     raising (if total_units > 0 then occupancy_rate occupied_units total_units
              else Inr (PInt 0)) (\<lambda>rate.
     raising (sum_or_zero rents) (\<lambda>total_rent.
     raising (mean_or_zero rents) (\<lambda>average_rent.
     raising (sum_or_zero ars) (\<lambda>total_area.
     raising (mean_or_zero ars) (\<lambda>average_area.
     Inr [(''total_units'', PInt (int total_units)),
          (''occupied_units'', PInt (int occupied_units)),
          (''vacant_units'', PInt vacant_units),
          (''occupancy_rate'', rate),
          (''total_rent'', total_rent),
          (''average_rent'', average_rent),
          (''total_area'', total_area),
          (''average_area'', average_area)])))))"

definition extract_summary_statistics :: "pydict list \<Rightarrow> py_exc + pydict" where
  "extract_summary_statistics data =
     (if data = [] then Inr []
      else
        let total_units = length data;
            occupied_units =
              length (filter (\<lambda>record. get record ''status'' = PStr ''occupied'') data);
            vacant_units = int total_units - int occupied_units
        in raising (rent_amounts data) (\<lambda>rents.
           raising (areas data) (\<lambda>ars.
           summary total_units occupied_units vacant_units rents ars)))"

subsection \<open>Vocabulary and sample data of the summary claims\<close>




section \<open>Unit-type inference (\<open>DocumentParser._infer_unit_type\<close>)\<close>






subsection \<open>Vocabulary of the unit-type claim\<close>







section \<open>Properties of the summary statistics\<close>












text \<open>
  Claim C7, as amended. On the empty record list the summarizer does not raise and returns
  the empty dictionary: no count, sum, average or rate is present in it.
\<close>

theorem empty_summary_is_empty:
  "extract_summary_statistics [] = Inr [] \<and> (\<forall>k. \<not> has_key [] k)"
  by (simp add: extract_summary_statistics_def has_key_def)

text \<open>Counterexample to C7 as stated: the summary of the empty list has no \<open>total_units\<close>
  entry, so that entry is not "present and equal to zero".\<close>

theorem empty_summary_has_no_total_units:
  "\<not> (case extract_summary_statistics [] of
        Inl e \<Rightarrow> False
      | Inr s \<Rightarrow> has_key s ''total_units'' \<and> get s ''total_units'' = PInt 0)"
  by (simp add: extract_summary_statistics_def has_key_def)

section \<open>Unit-type inference: what \<open>_infer_unit_type\<close> returns\<close>


















end
